theory Spec2Isabelle
  imports Complex_Main "HOL-Library.Word" "HOL-Library.Sublist"
begin

unbundle bit_operations_syntax

section \<open>Register codec (vl53l0x.go)\<close>

text \<open>
  Go's \<open>uint8\<close>, \<open>uint16\<close> and \<open>uint32\<close> are \<open>8 word\<close>, \<open>16 word\<close> and
  \<open>32 word\<close>: arithmetic wraps, \<open>x << n\<close> is \<open>push_bit n x\<close> (zero once \<open>n\<close>
  reaches the width, as in Go), \<open>x >> n\<close> is \<open>drop_bit n x\<close>, a conversion between
  widths is \<open>ucast\<close>.
\<close>

type_synonym u8 = "8 word"
type_synonym u16 = "16 word"
type_synonym u32 = "32 word"

text \<open>\<open>decodeVcselPeriod\<close>: \<open>(value + 1) << 1\<close>, in byte arithmetic.\<close>

definition decodeVcselPeriod :: "u8 \<Rightarrow> u8" where
  "decodeVcselPeriod v = push_bit 1 (v + 1)"

text \<open>\<open>encodeVcselPeriod\<close>: \<open>periodPclks>>1 - 1\<close>; the shift binds tighter.\<close>

definition encodeVcselPeriod :: "u8 \<Rightarrow> u8" where
  "encodeVcselPeriod periodPclks = drop_bit 1 periodPclks - 1"

text \<open>\<open>calcMacroPeriod\<close>: \<open>(uint32(vcselPeriodPclks)*2304*1655 + 500) / 1000\<close>.\<close>

definition calcMacroPeriod :: "u16 \<Rightarrow> u32" where
  "calcMacroPeriod vcselPeriodPclks = (ucast vcselPeriodPclks * 2304 * 1655 + 500) div 1000"

definition timeoutMclksToMicroseconds :: "u16 \<Rightarrow> u16 \<Rightarrow> u32" where
  "timeoutMclksToMicroseconds timeoutPeriodMclks vcselPeriodPclks =
     (let macroPeriodNsec = calcMacroPeriod vcselPeriodPclks
      in (ucast timeoutPeriodMclks * macroPeriodNsec + macroPeriodNsec div 2) div 1000)"

text \<open>
  \<open>timeoutMicrosecondsToMclks\<close> divides by the macro period. That period is zero only for
  \<open>vcselPeriodPclks = 0\<close>, where Go panics on the integer division; the model returns
  \<open>None\<close> there.
\<close>

definition timeoutMicrosecondsToMclks :: "u32 \<Rightarrow> u16 \<Rightarrow> u32 option" where
  "timeoutMicrosecondsToMclks timeoutPeriodUsec vcselPeriodPclks =
     (let macroPeriodNsec = calcMacroPeriod vcselPeriodPclks
      in if macroPeriodNsec = 0 then None
         else Some ((timeoutPeriodUsec * 1000 + macroPeriodNsec div 2) div macroPeriodNsec))"

text \<open>
  \<open>decodeTimeout\<close>: \<open>(regVal&0x00FF)<<((regVal&0xFF00)>>8) + 1\<close>. In Go the shift binds
  tighter than the addition.
\<close>

definition decodeTimeout :: "u16 \<Rightarrow> u16" where
  "decodeTimeout regVal =
     push_bit (unat (drop_bit 8 (regVal AND 0xFF00))) (regVal AND 0x00FF) + 1"

text \<open>
  The loop of \<open>encodeTimeout\<close>: \<open>for lsByte&0xFFFFFF00 > 0 { lsByte >>= 1; msByte++ }\<close>,
  on a \<open>uint32\<close> and a \<open>uint16\<close>.
\<close>

function encodeTimeout_loop :: "u32 \<Rightarrow> u16 \<Rightarrow> u32 \<times> u16" where
  "encodeTimeout_loop lsByte msByte =
     (if lsByte AND 0xFFFFFF00 > 0
      then encodeTimeout_loop (drop_bit 1 lsByte) (msByte + 1)
      else (lsByte, msByte))"
  by pat_completeness auto

termination
proof (relation "measure (\<lambda>(lsByte, msByte). unat lsByte)")
  show "wf (measure (\<lambda>(lsByte :: u32, msByte :: u16). unat lsByte))"
    by simp
next
  fix lsByte :: u32 and msByte :: u16
  assume "0 < lsByte AND 0xFFFFFF00"
  then have "lsByte \<noteq> 0"
    by auto
  then have "0 < unat lsByte"
    by (simp add: unat_gt_0)
  then have "unat lsByte div 2 < unat lsByte"
    by simp
  then show "((drop_bit 1 lsByte, msByte + 1), (lsByte, msByte))
      \<in> measure (\<lambda>(lsByte, msByte). unat lsByte)"
    by (simp add: drop_bit_eq_div unat_div)
qed

definition encodeTimeout :: "u16 \<Rightarrow> u16" where
  "encodeTimeout timeoutMclks =
     (if timeoutMclks > 0
      then (case encodeTimeout_loop (ucast timeoutMclks - 1) 0 of
              (lsByte, msByte) \<Rightarrow> push_bit 8 msByte OR ucast (lsByte AND 0xFF))
      else 0)"

section \<open>The environment: bus transport and clock\<close>

text \<open>
  The bus transport (package \<open>go-i2c\<close>) and the clock (\<open>time.Now\<close>) are outside the
  repository. Every call the driver makes to them is recorded as an event, and an
  environment answers each call as a function of the whole history up to and including
  that call: any deterministic sensor, bus and clock is such an environment.
\<close>

text \<open>The connection \<open>*i2c.I2C\<close>: its device address and bus number (\<open>GetBus\<close>).\<close>

record i2c =
  addr :: u8
  bus :: int

datatype event =
    EvWriteRegU8 i2c u8 u8
  | EvReadRegU8 i2c u8
  | EvWriteBytes i2c "u8 list"
  | EvReadBytes i2c nat
  | EvNewI2C u8 int
  | EvNow

record env =
  bus_error :: "event list \<Rightarrow> string option"
  bus_byte :: "event list \<Rightarrow> u8"
  bus_bytes :: "event list \<Rightarrow> u8 list"
  clock :: "event list \<Rightarrow> int"

text \<open>
  Go's \<open>error\<close> values of the driver: what the transport returned, what the driver made
  with \<open>errors.New\<close>, the timeout of the poll primitive (\<open>errors.New\<close> of a message
  formatted from the register and the last byte read), and the run-time panic of an
  integer division by zero.
\<close>

datatype error =
    BusError string
  | ErrorsNew string
  | TimeoutOccurs u8 u8
  | DivideByZeroPanic

text \<open>The struct \<open>Vl53l0x\<close>; \<open>time.Duration\<close> is a count of nanoseconds.\<close>

record Vl53l0x =
  stopVariable :: u8
  measurementTimingBudgetUsec :: u32
  ioTimeout :: int

definition NewVl53l0x :: Vl53l0x where
  "NewVl53l0x = \<lparr>stopVariable = 0, measurementTimingBudgetUsec = 0, ioTimeout = 0\<rparr>"

text \<open>The state a call runs in: the receiver \<open>v\<close> and the history of events.\<close>

record world =
  dev :: Vl53l0x
  trace :: "event list"

text \<open>
  A driver function maps a world to \<open>None\<close> when it never returns, and otherwise to its
  result (\<open>Inl\<close> the error, \<open>Inr\<close> the value) and the world it leaves: a mutation made
  before an error return stays.
\<close>

type_synonym 'a run = "world \<Rightarrow> ((error + 'a) \<times> world) option"

definition ret :: "'a \<Rightarrow> 'a run" where
  "ret a s = Some (Inr a, s)"

definition throw :: "error \<Rightarrow> 'a run" where
  "throw e s = Some (Inl e, s)"

text \<open>\<open>x, err := m; if err != nil { return err }; f x\<close>.\<close>

definition bindR :: "'a run \<Rightarrow> ('a \<Rightarrow> 'b run) \<Rightarrow> 'b run" where
  "bindR m f s =
     (case m s of
        None \<Rightarrow> None
      | Some (Inl e, s1) \<Rightarrow> Some (Inl e, s1)
      | Some (Inr a, s1) \<Rightarrow> f a s1)"

definition thenR :: "unit run \<Rightarrow> 'b run \<Rightarrow> 'b run" where
  "thenR m k = bindR m (\<lambda>_. k)"

definition record_event :: "event \<Rightarrow> world \<Rightarrow> world" where
  "record_event ev s = s\<lparr>trace := trace s @ [ev]\<rparr>"

text \<open>
  The calls of \<open>go-i2c\<close> the driver uses, with the results Go returns: an error or
  \<open>nil\<close>, and for a read the byte or the buffer (a fresh, zeroed buffer of \<open>n\<close> bytes the
  transport fills from the front).
\<close>

definition i2c_WriteRegU8 :: "env \<Rightarrow> i2c \<Rightarrow> u8 \<Rightarrow> u8 \<Rightarrow> world \<Rightarrow> string option \<times> world" where
  "i2c_WriteRegU8 E h reg v s =
     (let s1 = record_event (EvWriteRegU8 h reg v) s in (bus_error E (trace s1), s1))"

definition i2c_ReadRegU8 :: "env \<Rightarrow> i2c \<Rightarrow> u8 \<Rightarrow> world \<Rightarrow> (u8 \<times> string option) \<times> world" where
  "i2c_ReadRegU8 E h reg s =
     (let s1 = record_event (EvReadRegU8 h reg) s
      in ((bus_byte E (trace s1), bus_error E (trace s1)), s1))"

definition i2c_WriteBytes :: "env \<Rightarrow> i2c \<Rightarrow> u8 list \<Rightarrow> world \<Rightarrow> string option \<times> world" where
  "i2c_WriteBytes E h buf s =
     (let s1 = record_event (EvWriteBytes h buf) s in (bus_error E (trace s1), s1))"

definition i2c_ReadBytes :: "env \<Rightarrow> i2c \<Rightarrow> nat \<Rightarrow> world \<Rightarrow> (u8 list \<times> string option) \<times> world" where
  "i2c_ReadBytes E h n s =
     (let s1 = record_event (EvReadBytes h n) s
      in ((take n (bus_bytes E (trace s1) @ replicate n 0), bus_error E (trace s1)), s1))"

definition i2c_NewI2C :: "env \<Rightarrow> u8 \<Rightarrow> int \<Rightarrow> world \<Rightarrow> (i2c option \<times> string option) \<times> world" where
  "i2c_NewI2C E a b s =
     (let s1 = record_event (EvNewI2C a b) s
      in (case bus_error E (trace s1) of
            None \<Rightarrow> ((Some \<lparr>addr = a, bus = b\<rparr>, None), s1)
          | Some e \<Rightarrow> ((None, Some e), s1)))"

definition time_Now :: "env \<Rightarrow> world \<Rightarrow> int \<times> world" where
  "time_Now E s = (let s1 = record_event EvNow s in (clock E (trace s1), s1))"

text \<open>
  \<open>Time.Sub\<close> on two readings of the monotonic clock: the difference in nanoseconds,
  saturated to the range of \<open>int64\<close>.
\<close>

definition time_Sub :: "int \<Rightarrow> int \<Rightarrow> int" where
  "time_Sub t u = max (- (2 ^ 63)) (min (2 ^ 63 - 1) (t - u))"

text \<open>\<open>time.Millisecond\<close>, in nanoseconds.\<close>

abbreviation (input) time_Millisecond :: int where
  "time_Millisecond \<equiv> 1000000"

definition from_err :: "string option \<Rightarrow> world \<Rightarrow> ((error + unit) \<times> world) option" where
  "from_err r s = (case r of None \<Rightarrow> Some (Inr (), s) | Some e \<Rightarrow> Some (Inl (BusError e), s))"

section \<open>Register access and the poll primitive\<close>

text \<open>The register addresses the modelled functions use, under the source's names.\<close>

abbreviation (input) SYSRANGE_START :: u8 where "SYSRANGE_START \<equiv> 0x00"
abbreviation (input) SYSTEM_SEQUENCE_CONFIG :: u8 where "SYSTEM_SEQUENCE_CONFIG \<equiv> 0x01"
abbreviation (input) SYSTEM_INTERMEASUREMENT_PERIOD :: u8 where "SYSTEM_INTERMEASUREMENT_PERIOD \<equiv> 0x04"
abbreviation (input) SYSTEM_INTERRUPT_CONFIG_GPIO :: u8 where "SYSTEM_INTERRUPT_CONFIG_GPIO \<equiv> 0x0A"
abbreviation (input) GPIO_HV_MUX_ACTIVE_HIGH :: u8 where "GPIO_HV_MUX_ACTIVE_HIGH \<equiv> 0x84"
abbreviation (input) SYSTEM_INTERRUPT_CLEAR :: u8 where "SYSTEM_INTERRUPT_CLEAR \<equiv> 0x0B"
abbreviation (input) RESULT_INTERRUPT_STATUS :: u8 where "RESULT_INTERRUPT_STATUS \<equiv> 0x13"
abbreviation (input) RESULT_RANGE_STATUS :: u8 where "RESULT_RANGE_STATUS \<equiv> 0x14"
abbreviation (input) I2C_SLAVE_DEVICE_ADDRESS :: u8 where "I2C_SLAVE_DEVICE_ADDRESS \<equiv> 0x8A"
abbreviation (input) MSRC_CONFIG_CONTROL :: u8 where "MSRC_CONFIG_CONTROL \<equiv> 0x60"
abbreviation (input) PRE_RANGE_CONFIG_VALID_PHASE_LOW :: u8 where "PRE_RANGE_CONFIG_VALID_PHASE_LOW \<equiv> 0x56"
abbreviation (input) PRE_RANGE_CONFIG_VALID_PHASE_HIGH :: u8 where "PRE_RANGE_CONFIG_VALID_PHASE_HIGH \<equiv> 0x57"
abbreviation (input) FINAL_RANGE_CONFIG_VALID_PHASE_LOW :: u8 where "FINAL_RANGE_CONFIG_VALID_PHASE_LOW \<equiv> 0x47"
abbreviation (input) FINAL_RANGE_CONFIG_VALID_PHASE_HIGH :: u8 where "FINAL_RANGE_CONFIG_VALID_PHASE_HIGH \<equiv> 0x48"
abbreviation (input) FINAL_RANGE_CONFIG_MIN_COUNT_RATE_RTN_LIMIT :: u8 where
  "FINAL_RANGE_CONFIG_MIN_COUNT_RATE_RTN_LIMIT \<equiv> 0x44"
abbreviation (input) PRE_RANGE_CONFIG_VCSEL_PERIOD :: u8 where "PRE_RANGE_CONFIG_VCSEL_PERIOD \<equiv> 0x50"
abbreviation (input) PRE_RANGE_CONFIG_TIMEOUT_MACROP_HI :: u8 where "PRE_RANGE_CONFIG_TIMEOUT_MACROP_HI \<equiv> 0x51"
abbreviation (input) FINAL_RANGE_CONFIG_VCSEL_PERIOD :: u8 where "FINAL_RANGE_CONFIG_VCSEL_PERIOD \<equiv> 0x70"
abbreviation (input) FINAL_RANGE_CONFIG_TIMEOUT_MACROP_HI :: u8 where
  "FINAL_RANGE_CONFIG_TIMEOUT_MACROP_HI \<equiv> 0x71"
abbreviation (input) MSRC_CONFIG_TIMEOUT_MACROP :: u8 where "MSRC_CONFIG_TIMEOUT_MACROP \<equiv> 0x46"
abbreviation (input) SOFT_RESET_GO2_SOFT_RESET_N :: u8 where "SOFT_RESET_GO2_SOFT_RESET_N \<equiv> 0xBF"
abbreviation (input) IDENTIFICATION_MODEL_ID :: u8 where "IDENTIFICATION_MODEL_ID \<equiv> 0xC0"
abbreviation (input) IDENTIFICATION_REVISION_ID :: u8 where "IDENTIFICATION_REVISION_ID \<equiv> 0xC2"
abbreviation (input) OSC_CALIBRATE_VAL :: u8 where "OSC_CALIBRATE_VAL \<equiv> 0xF8"
abbreviation (input) GLOBAL_CONFIG_VCSEL_WIDTH :: u8 where "GLOBAL_CONFIG_VCSEL_WIDTH \<equiv> 0x32"
abbreviation (input) GLOBAL_CONFIG_SPAD_ENABLES_REF_0 :: u8 where "GLOBAL_CONFIG_SPAD_ENABLES_REF_0 \<equiv> 0xB0"
abbreviation (input) GLOBAL_CONFIG_REF_EN_START_SELECT :: u8 where "GLOBAL_CONFIG_REF_EN_START_SELECT \<equiv> 0xB6"
abbreviation (input) DYNAMIC_SPAD_NUM_REQUESTED_REF_SPAD :: u8 where
  "DYNAMIC_SPAD_NUM_REQUESTED_REF_SPAD \<equiv> 0x4E"
abbreviation (input) DYNAMIC_SPAD_REF_EN_START_OFFSET :: u8 where "DYNAMIC_SPAD_REF_EN_START_OFFSET \<equiv> 0x4F"
abbreviation (input) ALGO_PHASECAL_LIM :: u8 where "ALGO_PHASECAL_LIM \<equiv> 0x30"
abbreviation (input) ALGO_PHASECAL_CONFIG_TIMEOUT :: u8 where "ALGO_PHASECAL_CONFIG_TIMEOUT \<equiv> 0x30"

text \<open>\<open>writeRegU8\<close>: \<open>return i2c.WriteRegU8(reg, value)\<close>.\<close>

definition writeRegU8 :: "env \<Rightarrow> i2c \<Rightarrow> u8 \<Rightarrow> u8 \<Rightarrow> unit run" where
  "writeRegU8 E h reg v s = (case i2c_WriteRegU8 E h reg v s of (r, s1) \<Rightarrow> from_err r s1)"

text \<open>\<open>writeRegU16\<close>, \<open>writeRegU32\<close>: the register, then the bytes from the high one down.\<close>

definition writeRegU16 :: "env \<Rightarrow> i2c \<Rightarrow> u8 \<Rightarrow> u16 \<Rightarrow> unit run" where
  "writeRegU16 E h reg v s =
     (case i2c_WriteBytes E h [reg, ucast (drop_bit 8 v AND 0xFF), ucast (v AND 0xFF)] s of
        (r, s1) \<Rightarrow> from_err r s1)"

definition writeRegU32 :: "env \<Rightarrow> i2c \<Rightarrow> u8 \<Rightarrow> u32 \<Rightarrow> unit run" where
  "writeRegU32 E h reg v s =
     (case i2c_WriteBytes E h
             [reg, ucast (drop_bit 24 v AND 0xFF), ucast (drop_bit 16 v AND 0xFF),
              ucast (drop_bit 8 v AND 0xFF), ucast (v AND 0xFF)] s of
        (r, s1) \<Rightarrow> from_err r s1)"

definition writeBytes :: "env \<Rightarrow> i2c \<Rightarrow> u8 \<Rightarrow> u8 list \<Rightarrow> unit run" where
  "writeBytes E h reg buf s =
     (case i2c_WriteBytes E h ([reg] @ buf) s of (r, s1) \<Rightarrow> from_err r s1)"

text \<open>
  \<open>writeRegValues\<close>: the pairs in order, stopping at the first error. A \<open>RegBytePair\<close> is
  the pair of its \<open>Reg\<close> and its \<open>Value\<close>.
\<close>

type_synonym RegBytePair = "u8 \<times> u8"

fun writeRegValues :: "env \<Rightarrow> i2c \<Rightarrow> RegBytePair list \<Rightarrow> unit run" where
  "writeRegValues E h [] = ret ()"
| "writeRegValues E h (pair # pairs) =
     bindR (writeRegU8 E h (fst pair) (snd pair)) (\<lambda>_. writeRegValues E h pairs)"

text \<open>
  \<open>readRegU8\<close> returns the transport's byte and error as they are;
  \<open>readRegU8_pair\<close> is that pair, and \<open>readRegU8\<close> is the call followed by the
  caller's \<open>if err != nil { return err }\<close>.
\<close>

definition readRegU8_pair :: "env \<Rightarrow> i2c \<Rightarrow> u8 \<Rightarrow> world \<Rightarrow> (u8 \<times> error option) \<times> world" where
  "readRegU8_pair E h reg s =
     (case i2c_ReadRegU8 E h reg s of ((b, r), s1) \<Rightarrow> ((b, map_option BusError r), s1))"

definition readRegU8 :: "env \<Rightarrow> i2c \<Rightarrow> u8 \<Rightarrow> u8 run" where
  "readRegU8 E h reg s =
     (case readRegU8_pair E h reg s of
        ((b, None), s1) \<Rightarrow> Some (Inr b, s1)
      | ((b, Some e), s1) \<Rightarrow> Some (Inl e, s1))"

definition readRegU16 :: "env \<Rightarrow> i2c \<Rightarrow> u8 \<Rightarrow> u16 run" where
  "readRegU16 E h reg s =
     (case i2c_WriteBytes E h [reg] s of
        (Some e, s1) \<Rightarrow> Some (Inl (BusError e), s1)
      | (None, s1) \<Rightarrow>
          (case i2c_ReadBytes E h 2 s1 of
             ((buf, Some e), s2) \<Rightarrow> Some (Inl (BusError e), s2)
           | ((buf, None), s2) \<Rightarrow>
               Some (Inr (push_bit 8 (ucast (buf ! 0)) OR ucast (buf ! 1)), s2)))"

text \<open>\<open>readRegBytes\<close> into a fresh buffer of \<open>n\<close> bytes (\<open>make([]byte, n)\<close>).\<close>

definition readRegBytes :: "env \<Rightarrow> i2c \<Rightarrow> u8 \<Rightarrow> nat \<Rightarrow> u8 list run" where
  "readRegBytes E h reg n s =
     (case i2c_WriteBytes E h [reg] s of
        (Some e, s1) \<Rightarrow> Some (Inl (BusError e), s1)
      | (None, s1) \<Rightarrow>
          (case i2c_ReadBytes E h n s1 of
             ((buf, Some e), s2) \<Rightarrow> Some (Inl (BusError e), s2)
           | ((buf, None), s2) \<Rightarrow> Some (Inr buf, s2)))"

text \<open>\<open>setTimeout\<close>, \<open>startTimeout\<close>, \<open>checkTimeoutExpired\<close>.\<close>

definition setTimeout :: "int \<Rightarrow> unit run" where
  "setTimeout timeout s = Some (Inr (), s\<lparr>dev := (dev s)\<lparr>ioTimeout := timeout\<rparr>\<rparr>)"

definition startTimeout :: "env \<Rightarrow> world \<Rightarrow> int \<times> world" where
  "startTimeout E s = time_Now E s"

definition checkTimeoutExpired :: "env \<Rightarrow> int \<Rightarrow> world \<Rightarrow> bool \<times> world" where
  "checkTimeoutExpired E startTime s =
     (case time_Now E s of
        (t, s1) \<Rightarrow>
          (let left = time_Sub t startTime
           in (ioTimeout (dev s1) > 0 \<and> left > ioTimeout (dev s1), s1)))"

text \<open>
  The loop of \<open>waitUntilOrTimeout\<close>. It is \<open>None\<close> when the loop never ends: the
  predicate never holds, no error comes back and the timeout never expires.
\<close>

partial_function (option) waitLoop ::
  "env \<Rightarrow> i2c \<Rightarrow> u8 \<Rightarrow> (u8 \<Rightarrow> error option \<Rightarrow> bool \<times> error option) \<Rightarrow> int \<Rightarrow> world
     \<Rightarrow> ((error + unit) \<times> world) option" where
  "waitLoop E h reg breakWhen st s =
     (case readRegU8_pair E h reg s of
        ((b, err), s1) \<Rightarrow>
          (case breakWhen b err of
             (f, Some err2) \<Rightarrow> Some (Inl err2, s1)
           | (f, None) \<Rightarrow>
               if f then Some (Inr (), s1)
               else (case checkTimeoutExpired E st s1 of
                       (expired, s2) \<Rightarrow>
                         if expired then Some (Inl (TimeoutOccurs reg b), s2)
                         else waitLoop E h reg breakWhen st s2)))"

definition waitUntilOrTimeout ::
  "env \<Rightarrow> i2c \<Rightarrow> u8 \<Rightarrow> (u8 \<Rightarrow> error option \<Rightarrow> bool \<times> error option) \<Rightarrow> unit run" where
  "waitUntilOrTimeout E h reg breakWhen s =
     (case startTimeout E s of (st, s1) \<Rightarrow> waitLoop E h reg breakWhen st s1)"

section \<open>Sequence steps and the timing budget\<close>

record SequenceStepEnables =
  TCC :: bool
  MSRC :: bool
  DSS :: bool
  PreRange :: bool
  FinalRange :: bool

record SequenceStepTimeouts =
  PreRangeVcselPeriodPclks :: u16
  FinalRangeVcselPeriodPclks :: u16
  MsrcDssTccMclks :: u16
  PreRangeMclks :: u16
  FinalRangeMclks :: u16
  MsrcDssTccUsec :: u32
  PreRangeUsec :: u32
  FinalRangeUsec :: u32

text \<open>\<open>VcselPeriodType\<close> is a Go \<open>int\<close> with two named values, from \<open>iota + 1\<close>.\<close>

type_synonym VcselPeriodType = int

abbreviation (input) VcselPeriodPreRange :: VcselPeriodType where "VcselPeriodPreRange \<equiv> 1"
abbreviation (input) VcselPeriodFinalRange :: VcselPeriodType where "VcselPeriodFinalRange \<equiv> 2"

definition getSequenceStepEnables :: "env \<Rightarrow> i2c \<Rightarrow> SequenceStepEnables run" where
  "getSequenceStepEnables E h =
     bindR (readRegU8 E h SYSTEM_SEQUENCE_CONFIG) (\<lambda>sequenceConfig.
       ret \<lparr>TCC = (drop_bit 4 sequenceConfig AND 0x1 \<noteq> 0),
            MSRC = (drop_bit 2 sequenceConfig AND 0x1 \<noteq> 0),
            DSS = (drop_bit 3 sequenceConfig AND 0x1 \<noteq> 0),
            PreRange = (drop_bit 6 sequenceConfig AND 0x1 \<noteq> 0),
            FinalRange = (drop_bit 7 sequenceConfig AND 0x1 \<noteq> 0)\<rparr>)"

definition getVcselPulsePeriod :: "env \<Rightarrow> i2c \<Rightarrow> VcselPeriodType \<Rightarrow> u8 run" where
  "getVcselPulsePeriod E h tpe =
     (if tpe = VcselPeriodPreRange
      then bindR (readRegU8 E h PRE_RANGE_CONFIG_VCSEL_PERIOD) (\<lambda>b. ret (decodeVcselPeriod b))
      else if tpe = VcselPeriodFinalRange
      then bindR (readRegU8 E h FINAL_RANGE_CONFIG_VCSEL_PERIOD) (\<lambda>b. ret (decodeVcselPeriod b))
      else throw (ErrorsNew ''invalid VCSEL period type specified''))"

text \<open>
  \<open>getSequenceStepTimeouts\<close>: five reads, each followed by the fields computed from
  it. The final-range count loses the pre-range count, in \<open>uint16\<close>, when the pre-range
  step is enabled.
\<close>

definition getSequenceStepTimeouts ::
  "env \<Rightarrow> i2c \<Rightarrow> SequenceStepEnables \<Rightarrow> SequenceStepTimeouts run" where
  "getSequenceStepTimeouts E h enables =
     bindR (getVcselPulsePeriod E h VcselPeriodPreRange) (\<lambda>b1.
     let preRangeVcselPeriodPclks = (ucast b1 :: u16) in
     bindR (readRegU8 E h MSRC_CONFIG_TIMEOUT_MACROP) (\<lambda>b2.
     let msrcDssTccMclks = (ucast b2 :: u16) + 1;
         msrcDssTccUsec = timeoutMclksToMicroseconds msrcDssTccMclks preRangeVcselPeriodPclks in
     bindR (readRegU16 E h PRE_RANGE_CONFIG_TIMEOUT_MACROP_HI) (\<lambda>w1.
     let preRangeMclks = decodeTimeout w1;
         preRangeUsec = timeoutMclksToMicroseconds preRangeMclks preRangeVcselPeriodPclks in
     bindR (getVcselPulsePeriod E h VcselPeriodFinalRange) (\<lambda>b3.
     let finalRangeVcselPeriodPclks = (ucast b3 :: u16) in
     bindR (readRegU16 E h FINAL_RANGE_CONFIG_TIMEOUT_MACROP_HI) (\<lambda>w2.
     let finalRangeMclks0 = decodeTimeout w2;
         finalRangeMclks =
           (if PreRange enables then finalRangeMclks0 - preRangeMclks else finalRangeMclks0);
         finalRangeUsec = timeoutMclksToMicroseconds finalRangeMclks finalRangeVcselPeriodPclks
     in ret \<lparr>PreRangeVcselPeriodPclks = preRangeVcselPeriodPclks,
              FinalRangeVcselPeriodPclks = finalRangeVcselPeriodPclks,
              MsrcDssTccMclks = msrcDssTccMclks,
              PreRangeMclks = preRangeMclks,
              FinalRangeMclks = finalRangeMclks,
              MsrcDssTccUsec = msrcDssTccUsec,
              PreRangeUsec = preRangeUsec,
              FinalRangeUsec = finalRangeUsec\<rparr>)))))"

text \<open>The constants local to \<open>SetMeasurementTimingBudget\<close>.\<close>

definition set_StartOverhead :: u32 where "set_StartOverhead = 1320"
definition set_EndOverhead :: u32 where "set_EndOverhead = 960"
definition set_MsrcOverhead :: u32 where "set_MsrcOverhead = 660"
definition set_TccOverhead :: u32 where "set_TccOverhead = 590"
definition set_DssOverhead :: u32 where "set_DssOverhead = 690"
definition set_PreRangeOverhead :: u32 where "set_PreRangeOverhead = 660"
definition set_FinalRangeOverhead :: u32 where "set_FinalRangeOverhead = 550"
definition set_MinTimingBudget :: u32 where "set_MinTimingBudget = 20000"

text \<open>The constants local to \<open>getMeasurementTimingBudget\<close>.\<close>

definition get_StartOverhead :: u32 where "get_StartOverhead = 1910"
definition get_EndOverhead :: u32 where "get_EndOverhead = 960"
definition get_MsrcOverhead :: u32 where "get_MsrcOverhead = 660"
definition get_TccOverhead :: u32 where "get_TccOverhead = 590"
definition get_DssOverhead :: u32 where "get_DssOverhead = 690"
definition get_PreRangeOverhead :: u32 where "get_PreRangeOverhead = 660"
definition get_FinalRangeOverhead :: u32 where "get_FinalRangeOverhead = 550"

text \<open>
  \<open>usedBudgetUsec\<close> in \<open>SetMeasurementTimingBudget\<close> after the TCC, DSS or MSRC and
  pre-range steps, where the \<open>if enables.FinalRange\<close> begins.
\<close>

definition set_usedBudgetUsec :: "SequenceStepEnables \<Rightarrow> SequenceStepTimeouts \<Rightarrow> u32" where
  "set_usedBudgetUsec enables timeouts =
     (let used0 = set_StartOverhead + set_EndOverhead;
          used1 = (if TCC enables then used0 + (MsrcDssTccUsec timeouts + set_TccOverhead)
                   else used0);
          used2 = (if DSS enables then used1 + 2 * (MsrcDssTccUsec timeouts + set_DssOverhead)
                   else if MSRC enables
                   then used1 + (MsrcDssTccUsec timeouts + set_MsrcOverhead)
                   else used1);
          used3 = (if PreRange enables
                   then used2 + (PreRangeUsec timeouts + set_PreRangeOverhead)
                   else used2)
      in used3)"

definition store_budget :: "u32 \<Rightarrow> unit run" where
  "store_budget budgetUsec s =
     Some (Inr (), s\<lparr>dev := (dev s)\<lparr>measurementTimingBudgetUsec := budgetUsec\<rparr>\<rparr>)"

definition SetMeasurementTimingBudget :: "env \<Rightarrow> i2c \<Rightarrow> u32 \<Rightarrow> unit run" where
  "SetMeasurementTimingBudget E h budgetUsec =
     (if budgetUsec < set_MinTimingBudget
      then throw (ErrorsNew ''budget is lower than minimum allowed'')
      else
        bindR (getSequenceStepEnables E h) (\<lambda>enables.
        bindR (getSequenceStepTimeouts E h enables) (\<lambda>timeouts.
        let usedBudgetUsec = set_usedBudgetUsec enables timeouts in
        if FinalRange enables
        then
          (let usedBudgetUsec = usedBudgetUsec + set_FinalRangeOverhead in
           if usedBudgetUsec > budgetUsec
           then throw (ErrorsNew ''requested timeout too big'')
           else
             (let finalRangeTimeoutUsec = budgetUsec - usedBudgetUsec in
              case timeoutMicrosecondsToMclks finalRangeTimeoutUsec
                     (FinalRangeVcselPeriodPclks timeouts) of
                None \<Rightarrow> throw DivideByZeroPanic
              | Some mclks \<Rightarrow>
                  (let finalRangeTimeoutMclks =
                         (if PreRange enables then mclks + ucast (PreRangeMclks timeouts)
                          else mclks)
                   in thenR (writeRegU16 E h FINAL_RANGE_CONFIG_TIMEOUT_MACROP_HI
                               (encodeTimeout (ucast finalRangeTimeoutMclks)))
                        (store_budget budgetUsec))))
        else ret ())))"

text \<open>\<open>budgetUsec\<close> at the end of \<open>getMeasurementTimingBudget\<close>.\<close>

definition get_budgetUsec :: "SequenceStepEnables \<Rightarrow> SequenceStepTimeouts \<Rightarrow> u32" where
  "get_budgetUsec enables timeouts =
     (let budget0 = get_StartOverhead + get_EndOverhead;
          budget1 = (if TCC enables then budget0 + (MsrcDssTccUsec timeouts + get_TccOverhead)
                     else budget0);
          budget2 = (if DSS enables
                     then budget1 + 2 * (MsrcDssTccUsec timeouts + get_DssOverhead)
                     else if MSRC enables
                     then budget1 + (MsrcDssTccUsec timeouts + get_MsrcOverhead)
                     else budget1);
          budget3 = (if PreRange enables
                     then budget2 + (PreRangeUsec timeouts + get_PreRangeOverhead)
                     else budget2);
          budget4 = (if FinalRange enables
                     then budget3 + (FinalRangeUsec timeouts + get_FinalRangeOverhead)
                     else budget3)
      in budget4)"

definition getMeasurementTimingBudget :: "env \<Rightarrow> i2c \<Rightarrow> u32 run" where
  "getMeasurementTimingBudget E h =
     bindR (getSequenceStepEnables E h) (\<lambda>enables.
     bindR (getSequenceStepTimeouts E h enables) (\<lambda>timeouts.
     let budgetUsec = get_budgetUsec enables timeouts in
     thenR (store_budget budgetUsec) (ret budgetUsec)))"

section \<open>VCSEL pulse period and reference calibration\<close>

text \<open>\<open>performSingleRefCalibration\<close>.\<close>

definition performSingleRefCalibration :: "env \<Rightarrow> i2c \<Rightarrow> u8 \<Rightarrow> unit run" where
  "performSingleRefCalibration E h vhvInitByte =
     thenR (writeRegU8 E h SYSRANGE_START (0x01 OR vhvInitByte))
    (thenR (waitUntilOrTimeout E h RESULT_INTERRUPT_STATUS
              (\<lambda>checkReg err. (checkReg AND 0x07 \<noteq> 0, err)))
           (writeRegValues E h [(SYSTEM_INTERRUPT_CLEAR, 0x01), (SYSRANGE_START, 0x00)]))"

text \<open>
  \<open>SetVcselPulsePeriod\<close>, in the blocks of the source: the body of
  \<open>if tpe == VcselPeriodPreRange\<close>, the body of \<open>else if tpe == VcselPeriodFinalRange\<close>,
  and the function around them. In both bodies the conversions to macro clocks come
  after the \<open>switch\<close> that returns on every period outside the four valid ones.
\<close>

definition SetVcselPulsePeriod_pre ::
  "env \<Rightarrow> i2c \<Rightarrow> u8 \<Rightarrow> u8 \<Rightarrow> SequenceStepTimeouts \<Rightarrow> unit run" where
  "SetVcselPulsePeriod_pre E h periodPclks vcselPeriodReg timeouts =
     thenR
       (if periodPclks = 12 then writeRegU8 E h PRE_RANGE_CONFIG_VALID_PHASE_HIGH 0x18
        else if periodPclks = 14 then writeRegU8 E h PRE_RANGE_CONFIG_VALID_PHASE_HIGH 0x30
        else if periodPclks = 16 then writeRegU8 E h PRE_RANGE_CONFIG_VALID_PHASE_HIGH 0x40
        else if periodPclks = 18 then writeRegU8 E h PRE_RANGE_CONFIG_VALID_PHASE_HIGH 0x50
        else throw (ErrorsNew ''invalid period''))
    (thenR (writeRegU8 E h PRE_RANGE_CONFIG_VALID_PHASE_LOW 0x08)
    (thenR (writeRegU8 E h PRE_RANGE_CONFIG_VCSEL_PERIOD vcselPeriodReg)
    (thenR
       (case timeoutMicrosecondsToMclks (PreRangeUsec timeouts) (ucast periodPclks) of
          None \<Rightarrow> throw DivideByZeroPanic
        | Some newPreRangeTimeoutMclks \<Rightarrow>
            writeRegU16 E h PRE_RANGE_CONFIG_TIMEOUT_MACROP_HI
              (encodeTimeout (ucast newPreRangeTimeoutMclks)))
       (case timeoutMicrosecondsToMclks (MsrcDssTccUsec timeouts) (ucast periodPclks) of
          None \<Rightarrow> throw DivideByZeroPanic
        | Some mclks \<Rightarrow>
            (let newMsrcTimeoutMclks = (if mclks > 256 then 255 else mclks - 1)
             in writeRegU8 E h MSRC_CONFIG_TIMEOUT_MACROP (ucast newMsrcTimeoutMclks))))))"

definition SetVcselPulsePeriod_final ::
  "env \<Rightarrow> i2c \<Rightarrow> u8 \<Rightarrow> u8 \<Rightarrow> SequenceStepEnables \<Rightarrow> SequenceStepTimeouts \<Rightarrow> unit run" where
  "SetVcselPulsePeriod_final E h periodPclks vcselPeriodReg enables timeouts =
     thenR
       (if periodPclks = 8
        then writeRegValues E h
               [(FINAL_RANGE_CONFIG_VALID_PHASE_HIGH, 0x10),
                (FINAL_RANGE_CONFIG_VALID_PHASE_LOW, 0x08),
                (GLOBAL_CONFIG_VCSEL_WIDTH, 0x02),
                (ALGO_PHASECAL_CONFIG_TIMEOUT, 0x0C),
                (0xFF, 0x01),
                (ALGO_PHASECAL_LIM, 0x30),
                (0xFF, 0x00)]
        else if periodPclks = 10
        then writeRegValues E h
               [(FINAL_RANGE_CONFIG_VALID_PHASE_HIGH, 0x28),
                (FINAL_RANGE_CONFIG_VALID_PHASE_LOW, 0x08),
                (GLOBAL_CONFIG_VCSEL_WIDTH, 0x03),
                (ALGO_PHASECAL_CONFIG_TIMEOUT, 0x09),
                (0xFF, 0x01),
                (ALGO_PHASECAL_LIM, 0x20),
                (0xFF, 0x00)]
        else if periodPclks = 12
        then writeRegValues E h
               [(FINAL_RANGE_CONFIG_VALID_PHASE_HIGH, 0x38),
                (FINAL_RANGE_CONFIG_VALID_PHASE_LOW, 0x08),
                (GLOBAL_CONFIG_VCSEL_WIDTH, 0x03),
                (ALGO_PHASECAL_CONFIG_TIMEOUT, 0x08),
                (0xFF, 0x01),
                (ALGO_PHASECAL_LIM, 0x20),
                (0xFF, 0x00)]
        else if periodPclks = 14
        then writeRegValues E h
               [(FINAL_RANGE_CONFIG_VALID_PHASE_HIGH, 0x48),
                (FINAL_RANGE_CONFIG_VALID_PHASE_LOW, 0x08),
                (GLOBAL_CONFIG_VCSEL_WIDTH, 0x03),
                (ALGO_PHASECAL_CONFIG_TIMEOUT, 0x07),
                (0xFF, 0x01),
                (ALGO_PHASECAL_LIM, 0x20),
                (0xFF, 0x00)]
        else throw (ErrorsNew ''invalid period''))
    (thenR (writeRegU8 E h FINAL_RANGE_CONFIG_VCSEL_PERIOD vcselPeriodReg)
       (case timeoutMicrosecondsToMclks (FinalRangeUsec timeouts) (ucast periodPclks) of
          None \<Rightarrow> throw DivideByZeroPanic
        | Some mclks \<Rightarrow>
            (let newFinalRangeTimeoutMclks =
                   (if PreRange enables then mclks + ucast (PreRangeMclks timeouts)
                    else mclks)
             in writeRegU16 E h FINAL_RANGE_CONFIG_TIMEOUT_MACROP_HI
                  (encodeTimeout (ucast newFinalRangeTimeoutMclks)))))"

definition SetVcselPulsePeriod :: "env \<Rightarrow> i2c \<Rightarrow> VcselPeriodType \<Rightarrow> u8 \<Rightarrow> unit run" where
  "SetVcselPulsePeriod E h tpe periodPclks =
     (let vcselPeriodReg = encodeVcselPeriod periodPclks in
      bindR (getSequenceStepEnables E h) (\<lambda>enables.
      bindR (getSequenceStepTimeouts E h enables) (\<lambda>timeouts.
      thenR
        (if tpe = VcselPeriodPreRange
         then SetVcselPulsePeriod_pre E h periodPclks vcselPeriodReg timeouts
         else if tpe = VcselPeriodFinalRange
         then SetVcselPulsePeriod_final E h periodPclks vcselPeriodReg enables timeouts
         else throw (ErrorsNew ''invalid type''))
     (thenR (\<lambda>s. SetMeasurementTimingBudget E h (measurementTimingBudgetUsec (dev s)) s)
     (bindR (readRegU8 E h SYSTEM_SEQUENCE_CONFIG) (\<lambda>sequenceConfig.
      thenR (writeRegU8 E h SYSTEM_SEQUENCE_CONFIG 0x02)
     (thenR (performSingleRefCalibration E h 0x0)
            (writeRegU8 E h SYSTEM_SEQUENCE_CONFIG sequenceConfig))))))))"

section \<open>Ranging\<close>

definition StartContinuous :: "env \<Rightarrow> i2c \<Rightarrow> u32 \<Rightarrow> unit run" where
  "StartContinuous E h periodMs =
     thenR (\<lambda>s. writeRegValues E h
              [(0x80, 0x01), (0xFF, 0x01), (0x00, 0x00), (0x91, stopVariable (dev s)),
               (0x00, 0x01), (0xFF, 0x00), (0x80, 0x00)] s)
       (if periodMs \<noteq> 0
        then
          bindR (readRegU16 E h OSC_CALIBRATE_VAL) (\<lambda>oscCalibrateVal.
          let periodMs1 = (if oscCalibrateVal \<noteq> 0 then periodMs * ucast oscCalibrateVal
                           else periodMs)
          in thenR (writeRegU32 E h SYSTEM_INTERMEASUREMENT_PERIOD periodMs1)
                   (writeRegU8 E h SYSRANGE_START 0x04))
        else writeRegU8 E h SYSRANGE_START 0x02)"

definition StopContinuous :: "env \<Rightarrow> i2c \<Rightarrow> unit run" where
  "StopContinuous E h =
     writeRegValues E h
       [(SYSRANGE_START, 0x01), (0xFF, 0x01), (0x00, 0x00), (0x91, 0x00), (0x00, 0x01),
        (0xFF, 0x00)]"

definition readRangeMillimeters :: "env \<Rightarrow> i2c \<Rightarrow> u16 run" where
  "readRangeMillimeters E h =
     thenR (waitUntilOrTimeout E h RESULT_INTERRUPT_STATUS
              (\<lambda>checkReg err. (checkReg AND 0x07 \<noteq> 0, err)))
       (bindR (readRegU16 E h (RESULT_RANGE_STATUS + 10)) (\<lambda>rng.
        thenR (writeRegU8 E h SYSTEM_INTERRUPT_CLEAR 0x01) (ret rng)))"

definition ReadRangeContinuousMillimeters :: "env \<Rightarrow> i2c \<Rightarrow> u16 run" where
  "ReadRangeContinuousMillimeters E h = readRangeMillimeters E h"

definition ReadRangeSingleMillimeters :: "env \<Rightarrow> i2c \<Rightarrow> u16 run" where
  "ReadRangeSingleMillimeters E h =
     thenR (\<lambda>s. writeRegValues E h
              [(0x80, 0x01), (0xFF, 0x01), (0x00, 0x00), (0x91, stopVariable (dev s)),
               (0x00, 0x01), (0xFF, 0x00), (0x80, 0x00), (SYSRANGE_START, 0x01)] s)
    (thenR (waitUntilOrTimeout E h SYSRANGE_START
              (\<lambda>checkReg err. (checkReg AND 0x01 = 0, err)))
           (readRangeMillimeters E h))"

section \<open>Initialisation\<close>

text \<open>
  \<open>SetSignalRateLimit\<close> takes a \<open>float32\<close>; the model takes the real number that
  argument is (a NaN is none and is left out). The product with \<open>1 << 7\<close> is exact in
  floating point, and the conversion to \<open>uint16\<close> drops the fraction.
\<close>

definition SetSignalRateLimit :: "env \<Rightarrow> i2c \<Rightarrow> real \<Rightarrow> unit run" where
  "SetSignalRateLimit E h limitMcps =
     (if limitMcps < 0 \<or> limitMcps > 511.99
      then throw (ErrorsNew ''out of MCPS range'')
      else writeRegU16 E h FINAL_RANGE_CONFIG_MIN_COUNT_RATE_RTN_LIMIT
             (word_of_int \<lfloor>limitMcps * 2 ^ 7\<rfloor>))"

definition GetSignalRateLimit :: "env \<Rightarrow> i2c \<Rightarrow> real run" where
  "GetSignalRateLimit E h =
     bindR (readRegU16 E h FINAL_RANGE_CONFIG_MIN_COUNT_RATE_RTN_LIMIT) (\<lambda>w.
       ret (real (unat w) / 2 ^ 7))"

definition GetProductMinorRevision :: "env \<Rightarrow> i2c \<Rightarrow> u8 run" where
  "GetProductMinorRevision E h =
     bindR (readRegU8 E h IDENTIFICATION_REVISION_ID) (\<lambda>b. ret (drop_bit 4 (b AND 0xF0)))"

record SpadInfo =
  Count :: u8
  TypeIsAperture :: bool

definition getSpadInfo :: "env \<Rightarrow> i2c \<Rightarrow> SpadInfo run" where
  "getSpadInfo E h =
     thenR (writeRegValues E h [(0x80, 0x01), (0xFF, 0x01), (0x00, 0x00)]) (
     thenR (writeRegU8 E h 0xFF 0x06) (
     bindR (readRegU8 E h 0x83) (\<lambda>b1.
     thenR (writeRegValues E h [(0x83, b1 OR 0x04), (0xFF, 0x07), (0x81, 0x01)]) (
     thenR (writeRegU8 E h 0x80 0x01) (
     thenR (writeRegValues E h [(0x94, 0x6b), (0x83, 0x00)]) (
     thenR (waitUntilOrTimeout E h 0x83 (\<lambda>checkReg err. (checkReg \<noteq> 0, err))) (
     thenR (writeRegU8 E h 0x83 0x01) (
     bindR (readRegU8 E h 0x92) (\<lambda>tmp.
     thenR (writeRegValues E h [(0x81, 0x00), (0xFF, 0x06)]) (
     bindR (readRegU8 E h 0x83) (\<lambda>b2.
     thenR (writeRegValues E h [(0x83, b2 AND NOT 0x04), (0xFF, 0x01), (0x00, 0x01)]) (
     thenR (writeRegValues E h [(0xFF, 0x00), (0x80, 0x00)]) (
     ret \<lparr>Count = tmp AND 0x7F, TypeIsAperture = (drop_bit 7 tmp AND 0x01 \<noteq> 0)\<rparr>)))))))))))))"

text \<open>
  The loop of \<open>Init\<close> over the 48 bits of the SPAD map, \<open>for i = 0; i < 48; i++\<close> with
  \<open>i\<close> and \<open>spadsEnabled\<close> bytes: a bit below the first SPAD to enable, or met after
  \<open>Count\<close> set bits were counted, is cleared; any other set bit is counted. The map has
  six bytes (\<open>make([]byte, 6)\<close>), so every index \<open>i/8\<close> is in range.
\<close>

function spadLoop :: "SpadInfo \<Rightarrow> u8 \<Rightarrow> u8 \<Rightarrow> u8 \<Rightarrow> u8 list \<Rightarrow> u8 list" where
  "spadLoop spadInfo firstSpadToEnable i spadsEnabled spadMap =
     (if i < 48
      then
        (if i < firstSpadToEnable \<or> spadsEnabled = Count spadInfo
         then spadLoop spadInfo firstSpadToEnable (i + 1) spadsEnabled
                (spadMap[unat (i div 8) :=
                   spadMap ! unat (i div 8) AND NOT (push_bit (unat (i mod 8)) 1)])
         else if drop_bit (unat (i mod 8)) (spadMap ! unat (i div 8)) AND 0x1 \<noteq> 0
         then spadLoop spadInfo firstSpadToEnable (i + 1) (spadsEnabled + 1) spadMap
         else spadLoop spadInfo firstSpadToEnable (i + 1) spadsEnabled spadMap)
      else spadMap)"
  by pat_completeness auto

termination
  by (relation "measure (\<lambda>(spadInfo, firstSpadToEnable, i, spadsEnabled, spadMap). 48 - unat i)")
    (auto simp add: word_less_nat_alt unat_word_ariths)

text \<open>
  The rebuilding of the map in \<open>Init\<close>, from \<open>var firstSpadToEnable byte\<close> to the end
  of the loop: the first SPAD to enable is 12 for the aperture type and 0 otherwise.
\<close>

definition rebuildSpadMap :: "SpadInfo \<Rightarrow> u8 list \<Rightarrow> u8 list" where
  "rebuildSpadMap spadInfo spadMap =
     (let firstSpadToEnable = (if TypeIsAperture spadInfo then 12 else 0)
      in spadLoop spadInfo firstSpadToEnable 0 0 spadMap)"

text \<open>The tuning settings of \<open>Init\<close>, fourteen calls of \<open>writeRegValues\<close>.\<close>

definition load_tuning_settings :: "env \<Rightarrow> i2c \<Rightarrow> unit run" where
  "load_tuning_settings E h =
     thenR (writeRegValues E h [(0xFF, 0x01), (0x00, 0x00)]) (
     thenR (writeRegValues E h [(0xFF, 0x00), (0x09, 0x00), (0x10, 0x00), (0x11, 0x00)]) (
     thenR (writeRegValues E h [(0x24, 0x01), (0x25, 0xFF), (0x75, 0x00)]) (
     thenR (writeRegValues E h [(0xFF, 0x01), (0x4E, 0x2C), (0x48, 0x00), (0x30, 0x20)]) (
     thenR (writeRegValues E h 
         [(0xFF, 0x00), (0x30, 0x09), (0x54, 0x00), (0x31, 0x04),
          (0x32, 0x03), (0x40, 0x83), (0x46, 0x25), (0x60, 0x00),
          (0x27, 0x00), (0x50, 0x06), (0x51, 0x00), (0x52, 0x96),
          (0x56, 0x08), (0x57, 0x30), (0x61, 0x00), (0x62, 0x00),
          (0x64, 0x00), (0x65, 0x00), (0x66, 0xA0)]) (
     thenR (writeRegValues E h 
         [(0xFF, 0x01), (0x22, 0x32), (0x47, 0x14), (0x49, 0xFF),
          (0x4A, 0x00)]) (
     thenR (writeRegValues E h [(0xFF, 0x00), (0x7A, 0x0A), (0x7B, 0x00), (0x78, 0x21)]) (
     thenR (writeRegValues E h 
         [(0xFF, 0x01), (0x23, 0x34), (0x42, 0x00), (0x44, 0xFF),
          (0x45, 0x26), (0x46, 0x05), (0x40, 0x40), (0x0E, 0x06),
          (0x20, 0x1A), (0x43, 0x40)]) (
     thenR (writeRegValues E h [(0xFF, 0x00), (0x34, 0x03), (0x35, 0x44)]) (
     thenR (writeRegValues E h 
         [(0xFF, 0x01), (0x31, 0x04), (0x4B, 0x09), (0x4C, 0x05),
          (0x4D, 0x04)]) (
     thenR (writeRegValues E h 
         [(0xFF, 0x00), (0x44, 0x00), (0x45, 0x20), (0x47, 0x08),
          (0x48, 0x28), (0x67, 0x00), (0x70, 0x04), (0x71, 0x01),
          (0x72, 0xFE), (0x76, 0x00), (0x77, 0x00)]) (
     thenR (writeRegValues E h [(0xFF, 0x01), (0x0D, 0x01)]) (
     thenR (writeRegValues E h [(0xFF, 0x00), (0x80, 0x01), (0x01, 0xF8)]) (
     writeRegValues E h 
         [(0xFF, 0x01), (0x8E, 0x01), (0x00, 0x01), (0xFF, 0x00),
          (0x80, 0x00)])))))))))))))"

text \<open>
  \<open>v.stopVariable, err = v.readRegU8(i2c, 0x91)\<close>: the byte is stored, then the error is
  looked at.
\<close>

definition read_stopVariable :: "env \<Rightarrow> i2c \<Rightarrow> unit run" where
  "read_stopVariable E h s =
     (case readRegU8_pair E h 0x91 s of
        ((b, err), s1) \<Rightarrow>
          (let s2 = s1\<lparr>dev := (dev s1)\<lparr>stopVariable := b\<rparr>\<rparr>
           in case err of None \<Rightarrow> Some (Inr (), s2) | Some e \<Rightarrow> Some (Inl e, s2)))"

definition Init :: "env \<Rightarrow> i2c \<Rightarrow> unit run" where
  "Init E h =
     thenR (setTimeout (time_Millisecond * 1000)) (
     thenR (writeRegU8 E h 0x88 0x00) (
     thenR (writeRegValues E h [(0x80, 0x01), (0xFF, 0x01), (0x00, 0x00)]) (
     thenR (read_stopVariable E h) (
     thenR (writeRegValues E h [(0x00, 0x01), (0xFF, 0x00), (0x80, 0x00)]) (
     bindR (readRegU8 E h MSRC_CONFIG_CONTROL) (\<lambda>b1.
     thenR (writeRegU8 E h MSRC_CONFIG_CONTROL (b1 OR 0x12)) (
     thenR (SetSignalRateLimit E h 0.25) (
     thenR (writeRegU8 E h SYSTEM_SEQUENCE_CONFIG 0xFF) (
     bindR (getSpadInfo E h) (\<lambda>spadInfo.
     bindR (readRegBytes E h GLOBAL_CONFIG_SPAD_ENABLES_REF_0 6) (\<lambda>spadMap.
     thenR (writeRegValues E h 
         [(0xFF, 0x01), (DYNAMIC_SPAD_REF_EN_START_OFFSET, 0x00),
          (DYNAMIC_SPAD_NUM_REQUESTED_REF_SPAD, 0x2C), (0xFF, 0x00),
          (GLOBAL_CONFIG_REF_EN_START_SELECT, 0xB4)]) (
     thenR (writeBytes E h GLOBAL_CONFIG_SPAD_ENABLES_REF_0 (rebuildSpadMap spadInfo spadMap)) (
     thenR (load_tuning_settings E h) (
     thenR (writeRegU8 E h SYSTEM_INTERRUPT_CONFIG_GPIO 0x04) (
     bindR (readRegU8 E h GPIO_HV_MUX_ACTIVE_HIGH) (\<lambda>b2.
     thenR (writeRegValues E h 
         [(GPIO_HV_MUX_ACTIVE_HIGH, b2 AND NOT 0x10),
          (SYSTEM_INTERRUPT_CLEAR, 0x01)]) (
     bindR (getMeasurementTimingBudget E h) (\<lambda>budget.
     thenR (store_budget budget) (
     thenR (writeRegU8 E h SYSTEM_SEQUENCE_CONFIG 0xE8) (
     thenR (\<lambda>s. SetMeasurementTimingBudget E h (measurementTimingBudgetUsec (dev s)) s) (
     thenR (writeRegU8 E h SYSTEM_SEQUENCE_CONFIG 0x01) (
     thenR (performSingleRefCalibration E h 0x40) (
     thenR (writeRegU8 E h SYSTEM_SEQUENCE_CONFIG 0x02) (
     thenR (performSingleRefCalibration E h 0x00) (
     writeRegU8 E h SYSTEM_SEQUENCE_CONFIG 0xE8)))))))))))))))))))))))))"

section \<open>Reset, address and configuration\<close>

definition Reset :: "env \<Rightarrow> i2c \<Rightarrow> unit run" where
  "Reset E h =
     thenR (writeRegU8 E h SOFT_RESET_GO2_SOFT_RESET_N 0x00)
    (thenR (waitUntilOrTimeout E h IDENTIFICATION_MODEL_ID (\<lambda>checkReg err. (checkReg = 0, err)))
    (thenR (writeRegU8 E h SOFT_RESET_GO2_SOFT_RESET_N 0x01)
           (waitUntilOrTimeout E h IDENTIFICATION_MODEL_ID
              (\<lambda>checkReg err. (checkReg \<noteq> 0, None)))))"

text \<open>
  \<open>SetAddress\<close> takes \<open>i2cRef **i2c.I2C\<close>. The result is the error returned and the
  connection \<open>*i2cRef\<close> holds afterwards: the old one when the write failed, otherwise
  what \<open>i2c.NewI2C\<close> returned (\<open>nil\<close> with an error).
\<close>

definition SetAddress ::
  "env \<Rightarrow> i2c \<Rightarrow> u8 \<Rightarrow> world \<Rightarrow> ((error option \<times> i2c option) \<times> world) option" where
  "SetAddress E i2cRef newAddr s =
     (case writeRegU8 E i2cRef I2C_SLAVE_DEVICE_ADDRESS (newAddr AND 0x7F) s of
        None \<Rightarrow> None
      | Some (Inl e, s1) \<Rightarrow> Some ((Some e, Some i2cRef), s1)
      | Some (Inr u, s1) \<Rightarrow>
          (case i2c_NewI2C E newAddr (bus i2cRef) s1 of
             ((c, err), s2) \<Rightarrow> Some ((map_option BusError err, c), s2)))"

text \<open>\<open>RangeSpec\<close> and \<open>SpeedAccuracySpec\<close> are Go \<open>int\<close>s, named from \<open>iota + 1\<close>.\<close>

type_synonym RangeSpec = int
type_synonym SpeedAccuracySpec = int

abbreviation (input) RegularRange :: RangeSpec where "RegularRange \<equiv> 1"
abbreviation (input) LongRange :: RangeSpec where "LongRange \<equiv> 2"
abbreviation (input) HighSpeed :: SpeedAccuracySpec where "HighSpeed \<equiv> 1"
abbreviation (input) RegularAccuracy :: SpeedAccuracySpec where "RegularAccuracy \<equiv> 2"
abbreviation (input) GoodAccuracy :: SpeedAccuracySpec where "GoodAccuracy \<equiv> 3"
abbreviation (input) HighAccuracy :: SpeedAccuracySpec where "HighAccuracy \<equiv> 4"
abbreviation (input) HighestAccuracy :: SpeedAccuracySpec where "HighestAccuracy \<equiv> 5"

definition Config :: "env \<Rightarrow> i2c \<Rightarrow> RangeSpec \<Rightarrow> SpeedAccuracySpec \<Rightarrow> unit run" where
  "Config E h rng speed =
     thenR
       (if rng = RegularRange then
          thenR (SetSignalRateLimit E h 0.25) (
          thenR (SetVcselPulsePeriod E h VcselPeriodPreRange 14) (
          SetVcselPulsePeriod E h VcselPeriodFinalRange 10))
        else if rng = LongRange then
          thenR (SetSignalRateLimit E h 0.1) (
          thenR (SetVcselPulsePeriod E h VcselPeriodPreRange 18) (
          SetVcselPulsePeriod E h VcselPeriodFinalRange 14))
        else ret ())
       (if speed = HighSpeed then SetMeasurementTimingBudget E h 20000
        else if speed = RegularAccuracy then SetMeasurementTimingBudget E h 33000
        else if speed = GoodAccuracy then SetMeasurementTimingBudget E h 66000
        else if speed = HighAccuracy then SetMeasurementTimingBudget E h 100000
        else if speed = HighestAccuracy then SetMeasurementTimingBudget E h 200000
        else ret ())"

section \<open>Properties\<close>

text \<open>
  C3. The macro period of a VCSEL period of 14 PCLKs: the claim gives 6667, the code's
  formula \<open>(14 * 2304 * 1655 + 500) / 1000\<close> gives 53384.
\<close>

theorem calcMacroPeriod_14: "calcMacroPeriod 14 = 53384"
  by (simp add: calcMacroPeriod_def)

theorem calcMacroPeriod_14_not_6667: "calcMacroPeriod 14 \<noteq> 6667"
  by (simp add: calcMacroPeriod_def)

end
